theory Spec2Isabelle
  imports Main "HOL-Library.Word"
begin

section \<open>FaceWorks internal.h: allocation helpers and the STL allocator\<close>

text \<open>
  \<open>size_t\<close> and \<open>void *\<close> are 64-bit words (the source compares \<open>strlen\<close> with
  \<open>64ull\<close> through \<open>std::min\<close>, which fixes \<open>size_t\<close> at 64 bits). The null pointer
  is the word \<open>0\<close>. A function pointer is the address of the function it points to.
\<close>

type_synonym size_t = "64 word"
type_synonym ptr = "64 word"

text \<open>
  Modelled from the spec: the declaration of \<open>gfsdk_new_delete_t\<close> lives in
  \<open>GFSDK_FaceWorks.h\<close>, which is not part of the sources at hand. It is the pair of
  optional hooks \<open>{ allocate, deallocate }\<close>; the code reads its members \<open>new_\<close> and
  \<open>delete_\<close> (here \<open>new_hook\<close> and \<open>delete_hook\<close>: a name cannot end in an
  underscore), tests each against null and calls through it.
\<close>

record gfsdk_new_delete_t =
  new_hook :: ptr
  delete_hook :: ptr

text \<open>
  What the code does to the outside: calls through a hook and calls of the global
  \<open>::operator new\<close> / \<open>::operator delete\<close>, in program order.
\<close>

datatype alloc_event =
    HookNew ptr size_t
  | HookDelete ptr ptr
  | OperatorNew size_t
  | OperatorDelete ptr

datatype exn = bad_alloc

text \<open>
  The answers of the outside: \<open>hook_new f bytes\<close> is the pointer returned by the
  function at address \<open>f\<close> (a null result included); \<open>operator_new bytes\<close> is
  \<open>None\<close> when the global \<open>::operator new\<close> throws \<open>std::bad_alloc\<close>.
\<close>

record platform =
  hook_new :: "ptr \<Rightarrow> size_t \<Rightarrow> ptr"
  operator_new :: "size_t \<Rightarrow> ptr option"

definition FaceWorks_Malloc ::
  "platform \<Rightarrow> size_t \<Rightarrow> gfsdk_new_delete_t \<Rightarrow> alloc_event list \<times> (exn + ptr)" where
  "FaceWorks_Malloc pf bytes allocator =
     (if new_hook allocator \<noteq> 0
      then ([HookNew (new_hook allocator) bytes], Inr (hook_new pf (new_hook allocator) bytes))
      else ([OperatorNew bytes],
            (case operator_new pf bytes of None \<Rightarrow> Inl bad_alloc | Some p \<Rightarrow> Inr p)))"

definition FaceWorks_Free :: "ptr \<Rightarrow> gfsdk_new_delete_t \<Rightarrow> alloc_event list" where
  "FaceWorks_Free p allocator =
     (if p = 0 then []
      else if delete_hook allocator \<noteq> 0 then [HookDelete (delete_hook allocator) p]
      else [OperatorDelete p])"

text \<open>
  \<open>FaceWorks_Allocator<T>\<close>: the element type enters the code only through
  \<open>sizeof(T)\<close>, so an instance is its element size together with the member
  \<open>m_allocator\<close>.
\<close>

record FaceWorks_Allocator =
  sizeof_T :: size_t
  m_allocator :: gfsdk_new_delete_t

text \<open>The explicit constructor from \<open>gfsdk_new_delete_t *\<close> (\<open>None\<close> is a null pointer).\<close>

definition FaceWorks_Allocator_ctor ::
  "size_t \<Rightarrow> gfsdk_new_delete_t option \<Rightarrow> FaceWorks_Allocator" where
  "FaceWorks_Allocator_ctor sz pAllocator =
     (case pAllocator of
        Some a \<Rightarrow> \<lparr>sizeof_T = sz, m_allocator = \<lparr>new_hook = new_hook a, delete_hook = delete_hook a\<rparr>\<rparr>
      | None \<Rightarrow> \<lparr>sizeof_T = sz, m_allocator = \<lparr>new_hook = 0, delete_hook = 0\<rparr>\<rparr>)"

text \<open>
  The converting constructor \<open>FaceWorks_Allocator(FaceWorks_Allocator<T1> const & other)\<close>,
  which is what \<open>rebind\<close> leads to: the new instance has its own element size.
\<close>

definition FaceWorks_Allocator_rebind ::
  "size_t \<Rightarrow> FaceWorks_Allocator \<Rightarrow> FaceWorks_Allocator" where
  "FaceWorks_Allocator_rebind sz other = \<lparr>sizeof_T = sz, m_allocator = m_allocator other\<rparr>"

text \<open>\<open>n * sizeof(T)\<close> is a \<open>size_t\<close> product and wraps, as the word product does.\<close>

definition allocate ::
  "platform \<Rightarrow> FaceWorks_Allocator \<Rightarrow> size_t \<Rightarrow> alloc_event list \<times> (exn + ptr)" where
  "allocate pf a n =
     (case FaceWorks_Malloc pf (n * sizeof_T a) (m_allocator a) of
        (evs, Inl e) \<Rightarrow> (evs, Inl e)
      | (evs, Inr p) \<Rightarrow> (if p = 0 then (evs, Inl bad_alloc) else (evs, Inr p)))"

definition deallocate :: "FaceWorks_Allocator \<Rightarrow> ptr \<Rightarrow> size_t \<Rightarrow> alloc_event list" where
  "deallocate a p n = FaceWorks_Free p (m_allocator a)"

section \<open>FaceWorks internal.h: the scoped profiler\<close>

subsection \<open>C strings and the fixed buffer\<close>

text \<open>
  A \<open>const char *\<close> argument is the list of bytes found at the pointer; the C string it
  denotes ends before the first NUL byte (or at the end of the list, where the
  terminator then sits). \<open>strlen\<close> counts the bytes before the terminator and
  \<open>c_bytes\<close> are the bytes that may be read: the string and its terminator.
\<close>

definition NUL :: char where
  "NUL = CHR 0x00"

definition c_str :: "string \<Rightarrow> string" where
  "c_str s = takeWhile (\<lambda>c. c \<noteq> NUL) s"

definition strlen :: "string \<Rightarrow> nat" where
  "strlen s = length (c_str s)"

definition c_bytes :: "string \<Rightarrow> string" where
  "c_bytes s = c_str s @ [NUL]"

datatype mem_error = OutOfBounds | ConstraintViolation

text \<open>
  \<open>memcpy_s(&buf[off], destsz, src, count)\<close>: a constraint violation when \<open>count\<close>
  exceeds \<open>destsz\<close>; a write past the end of \<open>buf\<close> or a read past the terminator
  of \<open>src\<close> is out of bounds.
\<close>

definition memcpy_s ::
  "char list \<Rightarrow> nat \<Rightarrow> nat \<Rightarrow> string \<Rightarrow> nat \<Rightarrow> mem_error + char list" where
  "memcpy_s buf off destsz src count =
     (if destsz < count then Inl ConstraintViolation
      else if length buf < off + count \<or> length (c_bytes src) < count then Inl OutOfBounds
      else Inr (take off buf @ take count (c_bytes src) @ drop (off + count) buf))"

text \<open>\<open>buf[i] = c\<close>.\<close>

definition store :: "char list \<Rightarrow> nat \<Rightarrow> char \<Rightarrow> mem_error + char list" where
  "store buf i c = (if i < length buf then Inr (buf[i := c]) else Inl OutOfBounds)"

text \<open>
  The sizes of the label code are natural numbers: a string in memory is shorter than
  \<open>2 ^ 64\<close> bytes, and the sums computed from the lengths stay far below \<open>2 ^ 64\<close>.
  The one subtraction, \<open>256ull - name_sz\<close>, wraps as \<open>size_t\<close> does.
\<close>

definition size_t_sub :: "nat \<Rightarrow> nat \<Rightarrow> nat" where
  "size_t_sub a b = (a + 2 ^ 64 - b) mod 2 ^ 64"

definition prefix :: string where
  "prefix = ''FaceWorks_Profiler: ''"

text \<open>
  The label part of the constructor, lines 187 to 207, on the zeroed buffer \<open>buf0\<close>.
  The source's parameter \<open>fun\<close> is \<open>func\<close> here.
\<close>

definition build_info_str :: "char list \<Rightarrow> string \<Rightarrow> string \<Rightarrow> mem_error + char list" where
  "build_info_str buf0 name func =
     (let prefixLen = strlen prefix in
      case memcpy_s buf0 0 prefixLen prefix prefixLen of
        Inl e \<Rightarrow> Inl e
      | Inr buf1 \<Rightarrow>
          (let name_sz = min (strlen name) 64 in
           case memcpy_s buf1 prefixLen name_sz name name_sz of
             Inl e \<Rightarrow> Inl e
           | Inr buf2 \<Rightarrow>
               (let name_sz1 = name_sz + prefixLen in
                case store buf2 name_sz1 (CHR ''|'') of
                  Inl e \<Rightarrow> Inl e
                | Inr buf3 \<Rightarrow>
                    (let name_sz2 = name_sz1 + 1;
                         fun_sz = min (strlen func) 64;
                         len = min (size_t_sub 256 name_sz2) fun_sz
                     in memcpy_s buf3 name_sz2 len func len))))"

subsection \<open>The timer, the sinks and the profiler object\<close>

type_synonym LARGE_INTEGER = "64 word"
type_synonym DWORD = "32 word"

text \<open>
  The outcome of \<open>QueryPerformanceFrequency\<close> or \<open>QueryPerformanceCounter\<close>: the value
  written through the pointer on success, the \<open>GetLastError\<close> code on failure. A
  failed query leaves the pointed-to \<open>LARGE_INTEGER\<close> as it was.
\<close>

datatype qp_result = QP_Ok LARGE_INTEGER | QP_Fail DWORD

text \<open>
  The timer as the program sees it: the answer of the frequency query, and the answer
  of the \<open>k\<close>-th counter query (counted from 0).
\<close>

record timer =
  qpf :: qp_result
  qpc :: "nat \<Rightarrow> qp_result"

datatype which = M_begin | M_end

text \<open>
  The \<open>double\<close> handed to \<open>ProfilerPushTime\<close> is \<open>(double)diff * (1.0 / (double)freq)\<close>;
  it is kept as the two integers it is computed from.
\<close>

datatype seconds = Seconds LARGE_INTEGER LARGE_INTEGER

text \<open>
  \<open>BlobPrintf\<close> and \<open>ProfilerPushTime\<close> are declared in the header and defined
  elsewhere; a call is recorded with its arguments (for \<open>BlobPrintf\<close>: the blob, the
  format, the \<open>%s\<close> argument and the \<open>%lu\<close> argument).
\<close>

datatype prof_event =
    QueryPerformanceFrequency
  | QueryPerformanceCounter which
  | BlobPrintf ptr string string DWORD
  | ProfilerPushTime string seconds

record world =
  qpc_calls :: nat
  trace :: "prof_event list"

definition emit :: "prof_event \<Rightarrow> world \<Rightarrow> world" where
  "emit e w = w\<lparr>trace := trace w @ [e]\<rparr>"

definition err_fmt :: string where
  "err_fmt = ''Error: [%s] QueryPerformanceCounter failed with error %lu'' @ [CHR 0x0A]"

record FaceWorks_Profiler =
  m_begin :: LARGE_INTEGER
  m_end :: LARGE_INTEGER
  m_freq :: LARGE_INTEGER
  m_info_str :: "char list"
  m_did_start :: bool
  m_is_dummy :: bool
  pErrorBlobOut :: ptr

text \<open>
  The guarded \<open>ErrPrintf\<close> that the constructor and \<open>try_query_and_report_err\<close> both
  contain: \<open>if (pErrorBlobOut) ErrPrintf("[%s] ... %lu\\n", m_info_str, GetLastError())\<close>.
\<close>

definition report_err :: "FaceWorks_Profiler \<Rightarrow> DWORD \<Rightarrow> world \<Rightarrow> world" where
  "report_err p err w =
     (if pErrorBlobOut p \<noteq> 0
      then emit (BlobPrintf (pErrorBlobOut p) err_fmt (c_str (m_info_str p)) err) w
      else w)"

definition FaceWorks_Profiler_ctor ::
  "timer \<Rightarrow> string option \<Rightarrow> string option \<Rightarrow> ptr \<Rightarrow> world
     \<Rightarrow> mem_error + (FaceWorks_Profiler \<times> world)" where
  "FaceWorks_Profiler_ctor tm name func pBlob w =
     (let p0 = \<lparr>m_begin = 0, m_end = 0, m_freq = 0, m_info_str = replicate 264 NUL,
                 m_did_start = False, m_is_dummy = False, pErrorBlobOut = pBlob\<rparr>
      in if name \<noteq> None \<and> func \<noteq> None
         then (case build_info_str (m_info_str p0) (the name) (the func) of
                 Inl e \<Rightarrow> Inl e
               | Inr buf \<Rightarrow>
                   (let p1 = p0\<lparr>m_info_str := buf\<rparr>;
                        w1 = emit QueryPerformanceFrequency w
                    in case qpf tm of
                         QP_Ok f \<Rightarrow> Inr (p1\<lparr>m_freq := f\<rparr>, w1)
                       | QP_Fail err \<Rightarrow> Inr (p1, report_err p1 err w1)))
         else Inr (p0\<lparr>m_is_dummy := True\<rparr>, w))"

definition set_which :: "which \<Rightarrow> LARGE_INTEGER \<Rightarrow> FaceWorks_Profiler \<Rightarrow> FaceWorks_Profiler" where
  "set_which wh t p = (case wh of M_begin \<Rightarrow> p\<lparr>m_begin := t\<rparr> | M_end \<Rightarrow> p\<lparr>m_end := t\<rparr>)"

definition try_query_and_report_err ::
  "timer \<Rightarrow> which \<Rightarrow> FaceWorks_Profiler \<times> world \<Rightarrow> FaceWorks_Profiler \<times> world" where
  "try_query_and_report_err tm wh pw =
     (let p = fst pw; w = snd pw;
          w1 = emit (QueryPerformanceCounter wh) (w\<lparr>qpc_calls := Suc (qpc_calls w)\<rparr>)
      in case qpc tm (qpc_calls w) of
           QP_Ok t \<Rightarrow> (set_which wh t p, w1)
         | QP_Fail err \<Rightarrow> (p, report_err p err w1))"

definition start :: "timer \<Rightarrow> FaceWorks_Profiler \<times> world \<Rightarrow> FaceWorks_Profiler \<times> world" where
  "start tm pw =
     (if \<not> m_did_start (fst pw) \<and> \<not> m_is_dummy (fst pw)
      then (let pw1 = try_query_and_report_err tm M_begin pw
            in ((fst pw1)\<lparr>m_did_start := True\<rparr>, snd pw1))
      else pw)"

definition stop :: "timer \<Rightarrow> FaceWorks_Profiler \<times> world \<Rightarrow> FaceWorks_Profiler \<times> world" where
  "stop tm pw =
     (if m_did_start (fst pw) \<and> \<not> m_is_dummy (fst pw)
      then try_query_and_report_err tm M_end pw
      else pw)"

text \<open>
  The destructor; the object is gone afterwards, the world remains. The difference of
  the two \<open>QuadPart\<close>s is the 64-bit difference of the words.
\<close>

definition FaceWorks_Profiler_dtor :: "timer \<Rightarrow> FaceWorks_Profiler \<times> world \<Rightarrow> world" where
  "FaceWorks_Profiler_dtor tm pw =
     (if m_did_start (fst pw)
      then (let pw1 = stop tm pw; p = fst pw1;
                diff = m_end p - m_begin p
            in emit (ProfilerPushTime (c_str (m_info_str p)) (Seconds diff (m_freq p))) (snd pw1))
      else snd pw)"

subsection \<open>Lifetimes: construction, calls of the member functions, destruction\<close>

datatype call = Start | Stop

fun do_call :: "timer \<Rightarrow> call \<Rightarrow> FaceWorks_Profiler \<times> world \<Rightarrow> FaceWorks_Profiler \<times> world" where
  "do_call tm Start pw = start tm pw"
| "do_call tm Stop pw = stop tm pw"

fun run_calls :: "timer \<Rightarrow> call list \<Rightarrow> FaceWorks_Profiler \<times> world \<Rightarrow> FaceWorks_Profiler \<times> world" where
  "run_calls tm [] pw = pw"
| "run_calls tm (c # cs) pw = run_calls tm cs (do_call tm c pw)"

definition lifetime ::
  "timer \<Rightarrow> string option \<Rightarrow> string option \<Rightarrow> ptr \<Rightarrow> call list \<Rightarrow> world \<Rightarrow> mem_error + world" where
  "lifetime tm name func pBlob cs w =
     (case FaceWorks_Profiler_ctor tm name func pBlob w of
        Inl e \<Rightarrow> Inl e
      | Inr pw \<Rightarrow> Inr (FaceWorks_Profiler_dtor tm (run_calls tm cs pw)))"

definition world0 :: world where
  "world0 = \<lparr>qpc_calls = 0, trace = []\<rparr>"

subsection \<open>Reading a trace\<close>

fun is_sample :: "prof_event \<Rightarrow> bool" where
  "is_sample (ProfilerPushTime l s) = True"
| "is_sample e = False"

fun is_diagnostic :: "prof_event \<Rightarrow> bool" where
  "is_diagnostic (BlobPrintf b f l e) = True"
| "is_diagnostic e = False"

fun is_capture :: "which \<Rightarrow> prof_event \<Rightarrow> bool" where
  "is_capture wh (QueryPerformanceCounter wh') = (wh = wh')"
| "is_capture wh e = False"

definition samples :: "prof_event list \<Rightarrow> prof_event list" where
  "samples tr = filter is_sample tr"

definition diagnostics :: "prof_event list \<Rightarrow> prof_event list" where
  "diagnostics tr = filter is_diagnostic tr"

definition captures :: "which \<Rightarrow> prof_event list \<Rightarrow> nat" where
  "captures wh tr = length (filter (is_capture wh) tr)"

subsection \<open>Closed forms and readings used in the statements\<close>

text \<open>
  What the constructor's writes come to: the label, and the buffer holding it followed
  by the bytes the initial \<open>memset\<close> left at zero.
\<close>

definition code_label :: "string \<Rightarrow> string \<Rightarrow> string" where
  "code_label name func = prefix @ take 64 (c_str name) @ CHR ''|'' # take 64 (c_str func)"

definition info_buf :: "string \<Rightarrow> string \<Rightarrow> char list" where
  "info_buf name func =
     code_label name func @ replicate (264 - length (code_label name func)) NUL"

text \<open>
  The label as the specification words it: the prefix, the name cut to 64 bytes, the
  separator, and the calling context cut to what remains of 256 bytes.
\<close>

definition spec_label :: "string \<Rightarrow> string \<Rightarrow> string" where
  "spec_label name func =
     (let head = prefix @ take 64 (c_str name) @ [CHR ''|'']
      in head @ take (256 - length head) (c_str func))"

text \<open>The C string in \<open>m_info_str\<close> after construction.\<close>

definition info_string :: "mem_error + (FaceWorks_Profiler \<times> world) \<Rightarrow> string option" where
  "info_string r = (case r of Inl e \<Rightarrow> None | Inr pw \<Rightarrow> Some (c_str (m_info_str (fst pw))))"

text \<open>The calls made to the outside over a whole lifetime.\<close>

definition lifetime_trace ::
  "timer \<Rightarrow> string option \<Rightarrow> string option \<Rightarrow> ptr \<Rightarrow> call list \<Rightarrow> world \<Rightarrow> prof_event list" where
  "lifetime_trace tm name func pBlob cs w =
     (case lifetime tm name func pBlob cs w of Inl e \<Rightarrow> [] | Inr w' \<Rightarrow> trace w')"

subsection \<open>Concrete inputs\<close>

definition hooks_new_only :: gfsdk_new_delete_t where
  "hooks_new_only = \<lparr>new_hook = 0x1000, delete_hook = 0\<rparr>"

definition hooks_delete_only :: gfsdk_new_delete_t where
  "hooks_delete_only = \<lparr>new_hook = 0, delete_hook = 0x2000\<rparr>"

text \<open>A platform on which every hook returns null and the global \<open>operator new\<close> throws.\<close>

definition exhausted_platform :: platform where
  "exhausted_platform = \<lparr>hook_new = (\<lambda>f bytes. 0), operator_new = (\<lambda>bytes. None)\<rparr>"

definition int_allocator_new_only :: FaceWorks_Allocator where
  "int_allocator_new_only = FaceWorks_Allocator_ctor 4 (Some hooks_new_only)"

text \<open>A timer whose first counter query answers 100 and whose later ones fail with code 5.\<close>

definition timer_stop_fails :: timer where
  "timer_stop_fails = \<lparr>qpf = QP_Ok 1000, qpc = (\<lambda>k. if k = 0 then QP_Ok 100 else QP_Fail 5)\<rparr>"

text \<open>A timer whose frequency query fails with code 7; the \<open>k\<close>-th counter query answers \<open>100 * k\<close>.\<close>

definition timer_freq_fails :: timer where
  "timer_freq_fails = \<lparr>qpf = QP_Fail 7, qpc = (\<lambda>k. QP_Ok (of_nat (100 * k)))\<rparr>"

definition timer_ok :: timer where
  "timer_ok = \<lparr>qpf = QP_Ok 1000, qpc = (\<lambda>k. QP_Ok (of_nat (100 * k)))\<rparr>"

text \<open>
  An instance named \<open>Foo\<close> in the context \<open>Bar\<close> after \<open>start()\<close>, and the world at
  that moment: the state that construction and one \<open>start()\<close> lead to under
  \<open>timer_stop_fails\<close>.
\<close>

definition started_profiler :: FaceWorks_Profiler where
  "started_profiler =
     \<lparr>m_begin = 100, m_end = 0, m_freq = 1000,
      m_info_str = info_buf ''Foo'' ''Bar'',
      m_did_start = True, m_is_dummy = False, pErrorBlobOut = 0x4000\<rparr>"

definition world_started :: world where
  "world_started =
     \<lparr>qpc_calls = 1, trace = [QueryPerformanceFrequency, QueryPerformanceCounter M_begin]\<rparr>"

text \<open>A dummy instance, as the constructor leaves it when a name is absent.\<close>

definition dummy_profiler :: FaceWorks_Profiler where
  "dummy_profiler =
     \<lparr>m_begin = 0, m_end = 0, m_freq = 0, m_info_str = replicate 264 NUL,
      m_did_start = False, m_is_dummy = True, pErrorBlobOut = 0\<rparr>"

section \<open>Properties of the allocation layer\<close>

lemma allocate_result:
  "snd (allocate pf a n) =
     (case snd (FaceWorks_Malloc pf (n * sizeof_T a) (m_allocator a)) of
        Inl e \<Rightarrow> Inl e
      | Inr p \<Rightarrow> if p = 0 then Inl bad_alloc else Inr p)"
  by (simp add: allocate_def split: prod.splits sum.splits)

text \<open>
  C1. \<open>FaceWorks_Allocator<T>::allocate\<close> never returns a null pointer: whatever the
  count, the element size, the hooks and the platform's answers, the result is a
  non-null pointer or the exception \<open>std::bad_alloc\<close>; and whenever
  \<open>FaceWorks_Malloc\<close> hands back null for the request of \<open>n * sizeof(T)\<close> bytes,
  \<open>allocate\<close> throws \<open>std::bad_alloc\<close>.
\<close>

theorem allocate_null_becomes_bad_alloc:
  "snd (allocate pf a n) \<noteq> Inr 0 \<and>
   (snd (allocate pf a n) = Inl bad_alloc \<or> (\<exists>p. p \<noteq> 0 \<and> snd (allocate pf a n) = Inr p)) \<and>
   (snd (FaceWorks_Malloc pf (n * sizeof_T a) (m_allocator a)) = Inr 0
      \<longrightarrow> snd (allocate pf a n) = Inl bad_alloc)"
proof -
  obtain r where r: "snd (FaceWorks_Malloc pf (n * sizeof_T a) (m_allocator a)) = r"
    by simp
  show ?thesis
  proof (cases r)
    case (Inl e)
    then show ?thesis
      using r by (cases e) (simp add: allocate_result)
  next
    case (Inr p)
    then show ?thesis
      using r by (simp add: allocate_result)
  qed
qed

theorem allocate_null_becomes_bad_alloc_witness:
  "snd (FaceWorks_Malloc exhausted_platform (3 * sizeof_T int_allocator_new_only)
          (m_allocator int_allocator_new_only)) = Inr 0
   \<and> snd (allocate exhausted_platform int_allocator_new_only 3) = Inl bad_alloc"
  using allocate_null_becomes_bad_alloc
      [where pf = exhausted_platform and a = int_allocator_new_only and n = 3]
  by (simp add: FaceWorks_Malloc_def int_allocator_new_only_def FaceWorks_Allocator_ctor_def
      hooks_new_only_def exhausted_platform_def)

text \<open>
  C8. Deallocating the null pointer does nothing, whatever hooks are set: neither
  \<open>FaceWorks_Free\<close> nor \<open>FaceWorks_Allocator<T>::deallocate\<close> calls the custom hook or
  the global \<open>operator delete\<close> (the list of calls is empty), and neither can throw.
\<close>

theorem free_null_is_noop:
  "FaceWorks_Free 0 allocator = [] \<and> deallocate a 0 n = []"
  by (simp add: FaceWorks_Free_def deallocate_def)

text \<open>
  C9. Rebinding keeps the hooks: the allocator made by the converting constructor
  from an allocator of another element type holds the same \<open>m_allocator\<close>, that is
  the same allocate pointer and the same deallocate pointer, whatever the two element
  sizes are.
\<close>

theorem rebind_keeps_hooks:
  "m_allocator (FaceWorks_Allocator_rebind sz other) = m_allocator other \<and>
   new_hook (m_allocator (FaceWorks_Allocator_rebind sz other)) = new_hook (m_allocator other) \<and>
   delete_hook (m_allocator (FaceWorks_Allocator_rebind sz other)) = delete_hook (m_allocator other) \<and>
   sizeof_T (FaceWorks_Allocator_rebind sz other) = sz"
  by (simp add: FaceWorks_Allocator_rebind_def)

text \<open>
  C10. A partial hook pair is accepted and each operation looks at its own hook only.
  The constructor stores the pair as given. With the allocate hook alone,
  \<open>FaceWorks_Malloc\<close> calls the hook and returns its result, and \<open>FaceWorks_Free\<close> of a
  non-null pointer calls the global \<open>operator delete\<close>; with the deallocate hook
  alone, \<open>FaceWorks_Malloc\<close> calls the global \<open>operator new\<close> and \<open>FaceWorks_Free\<close> of a
  non-null pointer calls the hook.
\<close>

theorem partial_hooks_dispatch_separately:
  "m_allocator (FaceWorks_Allocator_ctor sz (Some al)) = al \<and>
   (new_hook al \<noteq> 0 \<and> delete_hook al = 0 \<and> p \<noteq> 0 \<longrightarrow>
      FaceWorks_Malloc pf bytes al
        = ([HookNew (new_hook al) bytes], Inr (hook_new pf (new_hook al) bytes)) \<and>
      FaceWorks_Free p al = [OperatorDelete p]) \<and>
   (new_hook al = 0 \<and> delete_hook al \<noteq> 0 \<and> p \<noteq> 0 \<longrightarrow>
      fst (FaceWorks_Malloc pf bytes al) = [OperatorNew bytes] \<and>
      FaceWorks_Free p al = [HookDelete (delete_hook al) p])"
  by (simp add: FaceWorks_Allocator_ctor_def FaceWorks_Malloc_def FaceWorks_Free_def)

theorem partial_hooks_dispatch_separately_witness:
  "(FaceWorks_Malloc exhausted_platform 12 hooks_new_only = ([HookNew 0x1000 12], Inr 0) \<and>
    FaceWorks_Free 0x5000 hooks_new_only = [OperatorDelete 0x5000]) \<and>
   (fst (FaceWorks_Malloc exhausted_platform 12 hooks_delete_only) = [OperatorNew 12] \<and>
    FaceWorks_Free 0x5000 hooks_delete_only = [HookDelete 0x2000 0x5000])"
  using partial_hooks_dispatch_separately
      [where al = hooks_new_only and p = "0x5000" and pf = exhausted_platform and bytes = 12]
    partial_hooks_dispatch_separately
      [where al = hooks_delete_only and p = "0x5000" and pf = exhausted_platform and bytes = 12]
  by (simp add: hooks_new_only_def hooks_delete_only_def exhausted_platform_def)

section \<open>Properties of the profiler's label\<close>

lemma strlen_prefix: "strlen prefix = 20"
  by (simp add: strlen_def c_str_def prefix_def NUL_def)

lemma c_str_prefix: "c_str prefix = prefix"
  by (simp add: c_str_def prefix_def NUL_def)

lemma length_prefix: "length prefix = 20"
  by (simp add: prefix_def)

lemma c_str_no_NUL: "NUL \<notin> set (c_str s)"
  by (auto simp: c_str_def dest: set_takeWhileD)

lemma c_str_before_NUL: "NUL \<notin> set xs \<Longrightarrow> c_str (xs @ NUL # ys) = xs"
  by (auto simp: c_str_def takeWhile_tail)

lemma take_c_str: "take (min (strlen s) k) (c_str s) = take k (c_str s)"
  by (simp add: strlen_def min_def)

lemma memcpy_s_tail:
  assumes "length xs = off" and "count \<le> strlen src" and "count \<le> k"
  shows "memcpy_s (xs @ replicate k NUL) off count src count
           = Inr (xs @ take count (c_str src) @ replicate (k - count) NUL)"
  using assms by (simp add: memcpy_s_def c_bytes_def strlen_def)

lemma store_tail:
  assumes "length xs = i" and "0 < k"
  shows "store (xs @ replicate k NUL) i c = Inr (xs @ c # replicate (k - 1) NUL)"
  using assms by (cases k) (simp_all add: store_def list_update_append)

lemma size_t_sub_small: "b \<le> a \<Longrightarrow> a < 2 ^ 64 \<Longrightarrow> size_t_sub a b = a - b"
proof -
  assume le: "b \<le> a" and lt: "a < 2 ^ 64"
  have "a + 2 ^ 64 - b = (a - b) + 1 * 2 ^ 64"
    using le by simp
  then have "(a + 2 ^ 64 - b) mod 2 ^ 64 = (a - b) mod 2 ^ 64"
    by (simp only: mod_mult_self1)
  also have "\<dots> = a - b"
    using lt by simp
  finally show ?thesis
    by (simp add: size_t_sub_def)
qed

lemma build_info_str_zeroed:
  "build_info_str (replicate 264 NUL) name func =
     Inr (prefix @ take 64 (c_str name) @ CHR ''|'' # take 64 (c_str func)
            @ replicate (243 - min (strlen name) 64 - min (strlen func) 64) NUL)"
proof -
  let ?n = "min (strlen name) 64" and ?m = "min (strlen func) 64"
  let ?A = "take 64 (c_str name)" and ?B = "take 64 (c_str func)"
  have lenA: "length ?A = ?n" and lenB: "length ?B = ?m"
    by (simp_all add: strlen_def min.commute)
  have b1: "memcpy_s (replicate 264 NUL) 0 20 prefix 20 = Inr (prefix @ replicate 244 NUL)"
    using memcpy_s_tail [of "[]" 0 20 prefix 264] by (simp add: strlen_prefix c_str_prefix length_prefix)
  have b2: "memcpy_s (prefix @ replicate 244 NUL) 20 ?n name ?n
              = Inr ((prefix @ ?A) @ replicate (244 - ?n) NUL)"
    using memcpy_s_tail [of prefix 20 ?n name 244] by (simp add: length_prefix take_c_str)
  have n64: "?n \<le> 64" and m64: "?m \<le> 64"
    by simp_all
  have b3: "store ((prefix @ ?A) @ replicate (244 - ?n) NUL) (?n + 20) (CHR ''|'')
              = Inr ((prefix @ ?A @ [CHR ''|'']) @ replicate (243 - ?n) NUL)"
  proof -
    have "length (prefix @ ?A) = ?n + 20"
      by (simp only: length_append length_prefix lenA add.commute)
    moreover have "0 < 244 - ?n"
      using n64 by linarith
    ultimately have "store ((prefix @ ?A) @ replicate (244 - ?n) NUL) (?n + 20) (CHR ''|'')
              = Inr ((prefix @ ?A) @ CHR ''|'' # replicate (244 - ?n - 1) NUL)"
      by (rule store_tail)
    moreover have "244 - ?n - 1 = 243 - ?n"
      by linarith
    ultimately show ?thesis
      by simp
  qed
  have sub: "size_t_sub 256 (?n + 20 + 1) = 235 - ?n"
    using n64 by (simp add: size_t_sub_small)
  have len: "min (235 - ?n) ?m = ?m"
    using n64 m64 by linarith
  have b4: "memcpy_s ((prefix @ ?A @ [CHR ''|'']) @ replicate (243 - ?n) NUL) (?n + 20 + 1) ?m func ?m
              = Inr ((prefix @ ?A @ [CHR ''|'']) @ ?B @ replicate (243 - ?n - ?m) NUL)"
  proof -
    have "length (prefix @ ?A @ [CHR ''|'']) = ?n + 20 + 1"
      by (simp add: length_prefix strlen_def)
    moreover have "?m \<le> strlen func"
      by simp
    moreover have "?m \<le> 243 - ?n"
      using n64 m64 by linarith
    ultimately have "memcpy_s ((prefix @ ?A @ [CHR ''|'']) @ replicate (243 - ?n) NUL) (?n + 20 + 1) ?m func ?m
              = Inr ((prefix @ ?A @ [CHR ''|'']) @ take ?m (c_str func) @ replicate (243 - ?n - ?m) NUL)"
      by (rule memcpy_s_tail)
    then show ?thesis
      by (simp only: take_c_str)
  qed
  show ?thesis
    unfolding build_info_str_def Let_def strlen_prefix
    by (simp only: b1 b2 b3 b4 sub len sum.case) simp
qed


lemma NUL_notin_prefix: "NUL \<notin> set prefix"
  by (simp add: prefix_def NUL_def)

lemma NUL_notin_code_label: "NUL \<notin> set (code_label name func)"
proof -
  have "NUL \<notin> set (take 64 (c_str name))" and "NUL \<notin> set (take 64 (c_str func))"
    using c_str_no_NUL by (blast dest: in_set_takeD)+
  moreover have "NUL \<noteq> CHR ''|''"
    by (simp add: NUL_def)
  ultimately show ?thesis
    using NUL_notin_prefix by (simp add: code_label_def)
qed

lemma length_code_label:
  "length (code_label name func) = 21 + min (strlen name) 64 + min (strlen func) 64"
  by (simp add: code_label_def length_prefix strlen_def)

lemma drop_padding:
  assumes "length xs + r = 264" and "length xs \<le> 256"
  shows "drop 256 (xs @ replicate r c) = replicate 8 c"
proof -
  have "r - (256 - length xs) = 8"
    using assms by linarith
  then show ?thesis
    using assms by simp
qed

lemma build_info_str_buf:
  "build_info_str (replicate 264 NUL) name func = Inr (info_buf name func)"
proof -
  have "243 - min (strlen name) 64 - min (strlen func) 64 = 264 - length (code_label name func)"
    unfolding length_code_label by linarith
  then show ?thesis
    by (simp add: build_info_str_zeroed info_buf_def code_label_def)
qed

lemma info_buf_props:
  shows length_info_buf: "length (info_buf name func) = 264"
    and c_str_info_buf: "c_str (info_buf name func) = code_label name func"
    and drop_info_buf: "drop 256 (info_buf name func) = replicate 8 NUL"
proof -
  let ?l = "code_label name func"
  let ?r = "264 - length ?l"
  have le: "length ?l \<le> 256"
    unfolding length_code_label by linarith
  then have len: "length ?l + ?r = 264"
    by linarith
  then show "length (info_buf name func) = 264"
    by (simp only: info_buf_def length_append length_replicate)
  have pos: "?r = Suc (?r - 1)"
    using le by linarith
  have "c_str (?l @ NUL # replicate (?r - 1) NUL) = ?l"
    using NUL_notin_code_label by (rule c_str_before_NUL)
  then show "c_str (info_buf name func) = ?l"
    unfolding info_buf_def by (subst pos) (simp only: replicate_Suc)
  from len le show "drop 256 (info_buf name func) = replicate 8 NUL"
    unfolding info_buf_def by (rule drop_padding)
qed

lemma ctor_named:
  "FaceWorks_Profiler_ctor tm (Some name) (Some func) pBlob w =
     Inr (\<lparr>m_begin = 0, m_end = 0,
            m_freq = (case qpf tm of QP_Ok f \<Rightarrow> f | QP_Fail err \<Rightarrow> 0),
            m_info_str = info_buf name func,
            m_did_start = False, m_is_dummy = False, pErrorBlobOut = pBlob\<rparr>,
          w\<lparr>trace := trace w @ QueryPerformanceFrequency #
                 (case qpf tm of
                    QP_Ok f \<Rightarrow> []
                  | QP_Fail err \<Rightarrow>
                      if pBlob \<noteq> 0 then [BlobPrintf pBlob err_fmt (code_label name func) err]
                      else [])\<rparr>)"
proof (cases "qpf tm")
  case (QP_Ok f)
  then show ?thesis
    by (simp add: FaceWorks_Profiler_ctor_def build_info_str_buf emit_def)
next
  case (QP_Fail err)
  then show ?thesis
    by (simp add: FaceWorks_Profiler_ctor_def build_info_str_buf emit_def report_err_def
        c_str_info_buf)
qed

lemma ctor_dummy:
  assumes "name = None \<or> func = None"
  shows "FaceWorks_Profiler_ctor tm name func pBlob w =
     Inr (\<lparr>m_begin = 0, m_end = 0, m_freq = 0, m_info_str = replicate 264 NUL,
            m_did_start = False, m_is_dummy = True, pErrorBlobOut = pBlob\<rparr>, w)"
  using assms by (auto simp: FaceWorks_Profiler_ctor_def)

text \<open>
  C4. Whatever the operation name and the calling context are (absent, empty or of
  any length), the constructor completes without a write outside \<open>m_info_str\<close>: the
  buffer keeps its 264 bytes, the label in it is at most 256 bytes long, the last 8
  bytes are still the zeros of the initial \<open>memset\<close>, and the byte right after the
  label is the null terminator.
\<close>

theorem label_stays_inside_buffer:
  "\<exists>p w'. FaceWorks_Profiler_ctor tm name func pBlob w = Inr (p, w') \<and>
          length (m_info_str p) = 264 \<and>
          strlen (m_info_str p) \<le> 256 \<and>
          drop 256 (m_info_str p) = replicate 8 NUL \<and>
          m_info_str p ! strlen (m_info_str p) = NUL"
proof (cases "name = None \<or> func = None")
  case True
  then show ?thesis
    by (simp add: ctor_dummy strlen_def c_str_def)
next
  case False
  then obtain n f where nf: "name = Some n" "func = Some f"
    by auto
  have "strlen (info_buf n f) \<le> 256"
    unfolding strlen_def c_str_info_buf length_code_label by linarith
  moreover have "info_buf n f ! strlen (info_buf n f) = NUL"
  proof -
    have "length (code_label n f) < 264"
      unfolding length_code_label by linarith
    then show ?thesis
      unfolding strlen_def c_str_info_buf by (simp add: info_buf_def nth_append)
  qed
  ultimately show ?thesis
    unfolding nf ctor_named by (simp add: length_info_buf drop_info_buf)
qed


lemma c_str_replicate: "c \<noteq> NUL \<Longrightarrow> c_str (replicate n c) = replicate n c"
  by (simp add: c_str_def)

text \<open>
  C5, as the code has it. For a name and a calling context that are both present, the
  instance is not a dummy and its label is the whole prefix, the name cut to 64 bytes,
  the separator, and the calling context cut to 64 bytes as well: the source takes
  \<open>min(strlen(fun), 64ull)\<close> before it looks at the room left below 256, and that room
  (at least 171 bytes) never binds.
\<close>

theorem label_truncates_context_to_64:
  "\<exists>p w'. FaceWorks_Profiler_ctor tm (Some name) (Some func) pBlob w = Inr (p, w') \<and>
          \<not> m_is_dummy p \<and>
          c_str (m_info_str p)
            = prefix @ take 64 (c_str name) @ [CHR ''|''] @ take 64 (c_str func)"
  by (simp add: ctor_named c_str_info_buf code_label_def)

text \<open>
  C5, as the specification words it, fails: with a name of 100 bytes and a calling context of
  100 bytes the label is not the one that keeps the whole context (185 bytes); the code
  stops after 64 bytes of the context (149 bytes).
\<close>

theorem label_full_context_counterexample:
  "info_string (FaceWorks_Profiler_ctor timer_ok
       (Some (replicate 100 (CHR ''a''))) (Some (replicate 100 (CHR ''b''))) 0 world0)
     \<noteq> Some (spec_label (replicate 100 (CHR ''a'')) (replicate 100 (CHR ''b'')))"
proof -
  let ?name = "replicate 100 (CHR ''a'')" and ?func = "replicate 100 (CHR ''b'')"
  have a: "c_str ?name = ?name" and b: "c_str ?func = ?func"
    by (simp_all add: c_str_replicate NUL_def)
  have code: "length (code_label ?name ?func) = 149"
    by (simp add: code_label_def a b length_prefix)
  have spec: "length (spec_label ?name ?func) = 185"
    by (simp add: spec_label_def a b length_prefix)
  have "code_label ?name ?func \<noteq> spec_label ?name ?func"
  proof
    assume "code_label ?name ?func = spec_label ?name ?func"
    then have "length (code_label ?name ?func) = length (spec_label ?name ?func)"
      by (rule arg_cong)
    with code spec show False
      by simp
  qed
  then show ?thesis
    by (simp add: info_string_def ctor_named c_str_info_buf)
qed

section \<open>Properties of the profiler's state machine\<close>

lemma trace_emit: "trace (emit e w) = trace w @ [e]"
  and qpc_calls_emit: "qpc_calls (emit e w) = qpc_calls w"
  by (simp_all add: emit_def)

lemma samples_append: "samples (xs @ ys) = samples xs @ samples ys"
  and diagnostics_append: "diagnostics (xs @ ys) = diagnostics xs @ diagnostics ys"
  and captures_append: "captures wh (xs @ ys) = captures wh xs + captures wh ys"
  by (simp_all add: samples_def diagnostics_def captures_def)

lemma trace_report_err:
  "trace (report_err p err w) =
     trace w @ (if pErrorBlobOut p \<noteq> 0
                then [BlobPrintf (pErrorBlobOut p) err_fmt (c_str (m_info_str p)) err] else [])"
  by (simp add: report_err_def trace_emit)

lemma qpc_calls_report_err: "qpc_calls (report_err p err w) = qpc_calls w"
  by (simp add: report_err_def qpc_calls_emit)

text \<open>One counter query: what it leaves alone and what it adds to the trace.\<close>

lemma try_query_keeps:
  "m_did_start (fst (try_query_and_report_err tm wh pw)) = m_did_start (fst pw)"
  "m_is_dummy (fst (try_query_and_report_err tm wh pw)) = m_is_dummy (fst pw)"
  "m_info_str (fst (try_query_and_report_err tm wh pw)) = m_info_str (fst pw)"
  "m_freq (fst (try_query_and_report_err tm wh pw)) = m_freq (fst pw)"
  "pErrorBlobOut (fst (try_query_and_report_err tm wh pw)) = pErrorBlobOut (fst pw)"
  by (simp_all add: try_query_and_report_err_def Let_def set_which_def
      split: qp_result.splits which.splits)

lemma try_query_trace:
  "trace (snd (try_query_and_report_err tm wh pw)) =
     trace (snd pw) @ QueryPerformanceCounter wh #
       (case qpc tm (qpc_calls (snd pw)) of
          QP_Ok t \<Rightarrow> []
        | QP_Fail err \<Rightarrow>
            if pErrorBlobOut (fst pw) \<noteq> 0
            then [BlobPrintf (pErrorBlobOut (fst pw)) err_fmt (c_str (m_info_str (fst pw))) err]
            else [])"
  by (simp add: try_query_and_report_err_def Let_def trace_emit trace_report_err
      split: qp_result.splits)

lemma try_query_qpc_calls:
  "qpc_calls (snd (try_query_and_report_err tm wh pw)) = Suc (qpc_calls (snd pw))"
  by (simp add: try_query_and_report_err_def Let_def qpc_calls_emit qpc_calls_report_err
      split: qp_result.splits)

lemma try_query_samples:
  "samples (trace (snd (try_query_and_report_err tm wh pw))) = samples (trace (snd pw))"
  by (simp add: try_query_trace samples_append) (simp add: samples_def split: qp_result.splits)

lemma try_query_captures:
  "captures wh' (trace (snd (try_query_and_report_err tm wh pw))) =
     captures wh' (trace (snd pw)) + (if wh' = wh then 1 else 0)"
  by (simp add: try_query_trace captures_append) (simp add: captures_def split: qp_result.splits)

text \<open>One call of a member function.\<close>

lemma do_call_keeps:
  "m_is_dummy (fst (do_call tm c pw)) = m_is_dummy (fst pw)"
  "m_info_str (fst (do_call tm c pw)) = m_info_str (fst pw)"
  "m_freq (fst (do_call tm c pw)) = m_freq (fst pw)"
  "pErrorBlobOut (fst (do_call tm c pw)) = pErrorBlobOut (fst pw)"
  "samples (trace (snd (do_call tm c pw))) = samples (trace (snd pw))"
  by (cases c; simp add: start_def stop_def Let_def try_query_keeps try_query_samples)+

lemma do_call_did_start:
  "m_did_start (fst (do_call tm c pw)) =
     (m_did_start (fst pw) \<or> (c = Start \<and> \<not> m_is_dummy (fst pw)))"
  by (cases c) (auto simp: start_def stop_def Let_def try_query_keeps)

lemma do_call_captures_begin:
  "captures M_begin (trace (snd (do_call tm c pw))) =
     captures M_begin (trace (snd pw)) +
       (if c = Start \<and> \<not> m_did_start (fst pw) \<and> \<not> m_is_dummy (fst pw) then 1 else 0)"
  by (cases c) (simp_all add: start_def stop_def Let_def try_query_captures)

lemma do_call_captures_end:
  "captures M_end (trace (snd (do_call tm c pw))) =
     captures M_end (trace (snd pw)) +
       (if c = Stop \<and> m_did_start (fst pw) \<and> \<not> m_is_dummy (fst pw) then 1 else 0)"
  by (cases c) (simp_all add: start_def stop_def Let_def try_query_captures)

text \<open>A sequence of calls.\<close>

lemma run_calls_keeps:
  "m_is_dummy (fst (run_calls tm cs pw)) = m_is_dummy (fst pw)"
  "m_info_str (fst (run_calls tm cs pw)) = m_info_str (fst pw)"
  "m_freq (fst (run_calls tm cs pw)) = m_freq (fst pw)"
  "pErrorBlobOut (fst (run_calls tm cs pw)) = pErrorBlobOut (fst pw)"
  "samples (trace (snd (run_calls tm cs pw))) = samples (trace (snd pw))"
  by (induction cs arbitrary: pw; simp add: do_call_keeps)+

lemma run_calls_did_start:
  "m_did_start (fst (run_calls tm cs pw)) =
     (m_did_start (fst pw) \<or> (Start \<in> set cs \<and> \<not> m_is_dummy (fst pw)))"
  by (induction cs arbitrary: pw) (auto simp: do_call_did_start do_call_keeps)

lemma run_calls_dummy: "m_is_dummy (fst pw) \<Longrightarrow> run_calls tm cs pw = pw"
proof (induction cs)
  case Nil
  show ?case by simp
next
  case (Cons c cs)
  then show ?case
    by (cases c) (simp_all add: start_def stop_def)
qed

lemma run_calls_captures_begin:
  "captures M_begin (trace (snd (run_calls tm cs pw))) =
     captures M_begin (trace (snd pw)) +
       (if Start \<in> set cs \<and> \<not> m_did_start (fst pw) \<and> \<not> m_is_dummy (fst pw) then 1 else 0)"
proof (induction cs arbitrary: pw)
  case Nil
  show ?case by simp
next
  case (Cons c cs)
  show ?case
    by (simp add: Cons.IH do_call_captures_begin do_call_did_start do_call_keeps)
qed

lemma run_calls_captures_end_started:
  assumes "m_did_start (fst pw)" and "\<not> m_is_dummy (fst pw)"
  shows "captures M_end (trace (snd (run_calls tm cs pw))) =
           captures M_end (trace (snd pw)) + length (filter (\<lambda>c. c = Stop) cs)"
  using assms
proof (induction cs arbitrary: pw)
  case Nil
  show ?case by simp
next
  case (Cons c cs)
  have "m_did_start (fst (do_call tm c pw))" and "\<not> m_is_dummy (fst (do_call tm c pw))"
    using Cons.prems by (simp_all add: do_call_did_start do_call_keeps)
  then show ?case
    using Cons.prems by (simp add: Cons.IH do_call_captures_end)
qed

lemma run_calls_captures_end_idle:
  assumes "\<not> m_did_start (fst pw)" and "\<not> m_is_dummy (fst pw)"
  shows "captures M_end (trace (snd (run_calls tm cs pw))) =
           captures M_end (trace (snd pw)) +
             length (filter (\<lambda>c. c = Stop) (dropWhile (\<lambda>c. c \<noteq> Start) cs))"
  using assms
proof (induction cs arbitrary: pw)
  case Nil
  show ?case by simp
next
  case (Cons c cs)
  show ?case
  proof (cases c)
    case Start
    have "m_did_start (fst (do_call tm Start pw))" and "\<not> m_is_dummy (fst (do_call tm Start pw))"
      using Cons.prems by (simp_all add: do_call_did_start do_call_keeps del: do_call.simps)
    then have "captures M_end (trace (snd (run_calls tm cs (do_call tm Start pw)))) =
        captures M_end (trace (snd (do_call tm Start pw))) + length (filter (\<lambda>c. c = Stop) cs)"
      by (rule run_calls_captures_end_started)
    then show ?thesis
      using Start by (simp add: do_call_captures_end del: do_call.simps)
  next
    case Stop
    have "do_call tm Stop pw = pw"
      using Cons.prems by (simp add: stop_def)
    then show ?thesis
      using Stop Cons.prems by (simp add: Cons.IH)
  qed
qed


lemma try_query_end_ticks:
  "m_begin (fst (try_query_and_report_err tm M_end pw)) = m_begin (fst pw)"
  "m_end (fst (try_query_and_report_err tm M_end pw)) =
     (case qpc tm (qpc_calls (snd pw)) of QP_Ok t \<Rightarrow> t | QP_Fail err \<Rightarrow> m_end (fst pw))"
  by (simp_all add: try_query_and_report_err_def Let_def set_which_def split: qp_result.splits)

lemma code_label_foo_bar: "code_label ''Foo'' ''Bar'' = ''FaceWorks_Profiler: Foo|Bar''"
  by (simp add: code_label_def prefix_def c_str_def NUL_def)

lemma started_profiler_reached:
  "map_sum id (run_calls timer_stop_fails [Start])
     (FaceWorks_Profiler_ctor timer_stop_fails (Some ''Foo'') (Some ''Bar'') 0x4000 world0)
   = Inr (started_profiler, world_started)"
  by (simp add: ctor_named start_def try_query_and_report_err_def Let_def set_which_def emit_def
      timer_stop_fails_def world0_def started_profiler_def world_started_def)

text \<open>The destructor.\<close>

lemma dtor_idle: "\<not> m_did_start (fst pw) \<Longrightarrow> FaceWorks_Profiler_dtor tm pw = snd pw"
  by (simp add: FaceWorks_Profiler_dtor_def)

lemma dtor_started_trace:
  assumes "m_did_start (fst pw)" and "\<not> m_is_dummy (fst pw)"
  shows "trace (FaceWorks_Profiler_dtor tm pw) =
     trace (snd (try_query_and_report_err tm M_end pw)) @
       [ProfilerPushTime (c_str (m_info_str (fst pw)))
          (Seconds ((case qpc tm (qpc_calls (snd pw)) of
                       QP_Ok t \<Rightarrow> t | QP_Fail err \<Rightarrow> m_end (fst pw)) - m_begin (fst pw))
                   (m_freq (fst pw)))]"
  using assms
  by (simp add: FaceWorks_Profiler_dtor_def stop_def Let_def trace_emit try_query_keeps
      try_query_end_ticks)

lemma dtor_samples:
  "length (samples (trace (FaceWorks_Profiler_dtor tm pw))) =
     length (samples (trace (snd pw))) + (if m_did_start (fst pw) then 1 else 0)"
  by (simp add: FaceWorks_Profiler_dtor_def stop_def Let_def trace_emit samples_append
      try_query_samples) (simp add: samples_def)

lemma dtor_captures:
  "captures M_begin (trace (FaceWorks_Profiler_dtor tm pw)) = captures M_begin (trace (snd pw))"
  "captures M_end (trace (FaceWorks_Profiler_dtor tm pw)) =
     captures M_end (trace (snd pw)) +
       (if m_did_start (fst pw) \<and> \<not> m_is_dummy (fst pw) then 1 else 0)"
  by (simp_all add: FaceWorks_Profiler_dtor_def stop_def Let_def trace_emit captures_append
      try_query_captures) (simp_all add: captures_def)

lemma lifetime_trace_named:
  "lifetime_trace tm (Some name) (Some func) pBlob cs w =
     trace (FaceWorks_Profiler_dtor tm (run_calls tm cs
       (projr (FaceWorks_Profiler_ctor tm (Some name) (Some func) pBlob w))))"
  by (simp add: lifetime_trace_def lifetime_def ctor_named)


lemma ctor_named_fields:
  "\<not> m_did_start (fst (projr (FaceWorks_Profiler_ctor tm (Some name) (Some func) pBlob w)))"
  "\<not> m_is_dummy (fst (projr (FaceWorks_Profiler_ctor tm (Some name) (Some func) pBlob w)))"
  "pErrorBlobOut (fst (projr (FaceWorks_Profiler_ctor tm (Some name) (Some func) pBlob w))) = pBlob"
  by (simp_all add: ctor_named)

lemma ctor_named_trace:
  "trace (snd (projr (FaceWorks_Profiler_ctor tm (Some name) (Some func) pBlob w))) =
     trace w @ QueryPerformanceFrequency #
       (case qpf tm of
          QP_Ok f \<Rightarrow> []
        | QP_Fail err \<Rightarrow>
            if pBlob \<noteq> 0 then [BlobPrintf pBlob err_fmt (code_label name func) err] else [])"
  by (simp add: ctor_named)

text \<open>
  C2, as the code has it. When the instance has been started and the counter query
  made by \<open>stop()\<close> in the destructor fails, the destructor reports the failure through
  \<open>BlobPrintf\<close> exactly when an error blob was supplied (\<open>pErrorBlobOut\<close> not null) and
  then calls \<open>ProfilerPushTime\<close> all the same, once, with the label and the difference
  of \<open>m_end\<close> and \<open>m_begin\<close> as they stand: \<open>try_query_and_report_err\<close> returns nothing,
  so the destructor cannot tell a failed capture from a good one.
\<close>

theorem failed_stop_capture_still_emits:
  assumes "m_did_start p" and "\<not> m_is_dummy p" and "qpc tm (qpc_calls w) = QP_Fail err"
  shows "trace (FaceWorks_Profiler_dtor tm (p, w)) =
     trace w @ [QueryPerformanceCounter M_end] @
       (if pErrorBlobOut p \<noteq> 0
        then [BlobPrintf (pErrorBlobOut p) err_fmt (c_str (m_info_str p)) err] else []) @
       [ProfilerPushTime (c_str (m_info_str p)) (Seconds (m_end p - m_begin p) (m_freq p))]"
proof -
  have "m_did_start (fst (p, w))" and "\<not> m_is_dummy (fst (p, w))"
    using assms by simp_all
  then have "trace (FaceWorks_Profiler_dtor tm (p, w)) =
     trace (snd (try_query_and_report_err tm M_end (p, w))) @
       [ProfilerPushTime (c_str (m_info_str (fst (p, w))))
          (Seconds ((case qpc tm (qpc_calls (snd (p, w))) of
                       QP_Ok t \<Rightarrow> t | QP_Fail err \<Rightarrow> m_end (fst (p, w))) - m_begin (fst (p, w)))
                   (m_freq (fst (p, w))))]"
    by (rule dtor_started_trace)
  then show ?thesis
    using assms(3) by (simp add: try_query_trace)
qed

theorem failed_stop_capture_still_emits_witness:
  "m_did_start started_profiler \<and> \<not> m_is_dummy started_profiler \<and>
   qpc timer_stop_fails (qpc_calls world_started) = QP_Fail 5 \<and>
   trace (FaceWorks_Profiler_dtor timer_stop_fails (started_profiler, world_started)) =
     [QueryPerformanceFrequency, QueryPerformanceCounter M_begin, QueryPerformanceCounter M_end,
      BlobPrintf 0x4000 err_fmt ''FaceWorks_Profiler: Foo|Bar'' 5,
      ProfilerPushTime ''FaceWorks_Profiler: Foo|Bar'' (Seconds (- 100) 1000)]"
  using failed_stop_capture_still_emits
    [where p = started_profiler and tm = timer_stop_fails and w = world_started and err = 5]
  by (simp add: started_profiler_def world_started_def timer_stop_fails_def c_str_info_buf
      code_label_foo_bar)

text \<open>
  C2, as the specification words it, fails. An instance \<open>Foo\<close>/\<open>Bar\<close> is started, its second
  counter query (the one of the destructor's \<open>stop()\<close>) fails with code 5: the sample is
  emitted nevertheless; and with no error blob the same lifetime reports nothing.
\<close>

theorem failed_stop_capture_counterexample:
  "qpc timer_stop_fails 1 = QP_Fail 5 \<and>
   lifetime_trace timer_stop_fails (Some ''Foo'') (Some ''Bar'') 0x4000 [Start] world0 =
     [QueryPerformanceFrequency, QueryPerformanceCounter M_begin, QueryPerformanceCounter M_end,
      BlobPrintf 0x4000 err_fmt ''FaceWorks_Profiler: Foo|Bar'' 5,
      ProfilerPushTime ''FaceWorks_Profiler: Foo|Bar'' (Seconds (- 100) 1000)] \<and>
   samples (lifetime_trace timer_stop_fails (Some ''Foo'') (Some ''Bar'') 0x4000 [Start] world0) \<noteq> [] \<and>
   diagnostics (lifetime_trace timer_stop_fails (Some ''Foo'') (Some ''Bar'') 0 [Start] world0) = []"
  by (simp add: lifetime_trace_def lifetime_def ctor_named FaceWorks_Profiler_dtor_def
      start_def stop_def try_query_and_report_err_def Let_def set_which_def emit_def report_err_def
      timer_stop_fails_def world0_def c_str_info_buf code_label_foo_bar
      samples_def diagnostics_def)


text \<open>With a timer whose counter queries all succeed, calls and destruction report nothing.\<close>

lemma try_query_ok_diagnostics:
  assumes "\<forall>k. \<exists>t. qpc tm k = QP_Ok t"
  shows "diagnostics (trace (snd (try_query_and_report_err tm wh pw))) = diagnostics (trace (snd pw))"
proof -
  obtain t where "qpc tm (qpc_calls (snd pw)) = QP_Ok t"
    using assms by blast
  then show ?thesis
    by (simp add: try_query_trace diagnostics_append) (simp add: diagnostics_def)
qed

lemma do_call_ok_diagnostics:
  assumes "\<forall>k. \<exists>t. qpc tm k = QP_Ok t"
  shows "diagnostics (trace (snd (do_call tm c pw))) = diagnostics (trace (snd pw))"
  by (cases c) (simp_all add: start_def stop_def Let_def try_query_ok_diagnostics [OF assms])

lemma run_calls_ok_diagnostics:
  assumes "\<forall>k. \<exists>t. qpc tm k = QP_Ok t"
  shows "diagnostics (trace (snd (run_calls tm cs pw))) = diagnostics (trace (snd pw))"
  by (induction cs arbitrary: pw) (simp_all add: do_call_ok_diagnostics [OF assms])

lemma dtor_ok_diagnostics:
  assumes "\<forall>k. \<exists>t. qpc tm k = QP_Ok t"
  shows "diagnostics (trace (FaceWorks_Profiler_dtor tm pw)) = diagnostics (trace (snd pw))"
  by (simp add: FaceWorks_Profiler_dtor_def stop_def Let_def trace_emit diagnostics_append
      try_query_ok_diagnostics [OF assms]) (simp add: diagnostics_def)

text \<open>
  C3, as the code has it. When \<open>QueryPerformanceFrequency\<close> fails in the constructor,
  the instance is real (not a dummy) with \<open>m_freq\<close> left at zero, and the constructor
  reports once if an error blob was supplied and not at all otherwise. Over the whole
  lifetime one sample is emitted if \<open>start()\<close> was called and none if it never was; and
  if every counter query succeeds, the constructor's report is the only diagnostic of
  the lifetime (one with an error blob, none without).
\<close>

theorem failed_frequency_lifetime:
  assumes "qpf tm = QP_Fail err"
  shows "(\<exists>p w'. FaceWorks_Profiler_ctor tm (Some name) (Some func) pBlob w = Inr (p, w') \<and>
            m_freq p = 0 \<and> \<not> m_is_dummy p \<and>
            trace w' = trace w @ QueryPerformanceFrequency #
              (if pBlob \<noteq> 0
               then [BlobPrintf pBlob err_fmt
                       (prefix @ take 64 (c_str name) @ [CHR ''|''] @ take 64 (c_str func)) err]
               else [])) \<and>
         length (samples (lifetime_trace tm (Some name) (Some func) pBlob cs w)) =
           length (samples (trace w)) + (if Start \<in> set cs then 1 else 0) \<and>
         ((\<forall>k. \<exists>t. qpc tm k = QP_Ok t) \<longrightarrow>
            length (diagnostics (lifetime_trace tm (Some name) (Some func) pBlob cs w)) =
              length (diagnostics (trace w)) + (if pBlob \<noteq> 0 then 1 else 0))"
proof (intro conjI impI)
  show "\<exists>p w'. FaceWorks_Profiler_ctor tm (Some name) (Some func) pBlob w = Inr (p, w') \<and>
            m_freq p = 0 \<and> \<not> m_is_dummy p \<and>
            trace w' = trace w @ QueryPerformanceFrequency #
              (if pBlob \<noteq> 0
               then [BlobPrintf pBlob err_fmt
                       (prefix @ take 64 (c_str name) @ [CHR ''|''] @ take 64 (c_str func)) err]
               else [])"
    using assms by (simp add: ctor_named code_label_def)
  show "length (samples (lifetime_trace tm (Some name) (Some func) pBlob cs w)) =
           length (samples (trace w)) + (if Start \<in> set cs then 1 else 0)"
    using assms
    by (simp add: lifetime_trace_named dtor_samples run_calls_keeps run_calls_did_start
        ctor_named_fields ctor_named_trace samples_append)
      (simp add: samples_def)
  assume ok: "\<forall>k. \<exists>t. qpc tm k = QP_Ok t"
  show "length (diagnostics (lifetime_trace tm (Some name) (Some func) pBlob cs w)) =
          length (diagnostics (trace w)) + (if pBlob \<noteq> 0 then 1 else 0)"
    using assms
    by (simp add: lifetime_trace_named dtor_ok_diagnostics [OF ok] run_calls_ok_diagnostics [OF ok]
        ctor_named_trace diagnostics_append)
      (simp add: diagnostics_def)
qed

theorem failed_frequency_lifetime_witness:
  "qpf timer_freq_fails = QP_Fail 7 \<and>
   (\<forall>k. \<exists>t. qpc timer_freq_fails k = QP_Ok t) \<and>
   length (samples (lifetime_trace timer_freq_fails (Some ''Foo'') (Some ''Bar'') 0x4000
                      [Start, Stop] world0)) = 1 \<and>
   length (diagnostics (lifetime_trace timer_freq_fails (Some ''Foo'') (Some ''Bar'') 0x4000
                          [Start, Stop] world0)) = 1"
  using failed_frequency_lifetime
    [where tm = timer_freq_fails and err = 7 and name = "''Foo''" and func = "''Bar''"
       and pBlob = "0x4000" and cs = "[Start, Stop]" and w = world0]
  by (simp add: timer_freq_fails_def world0_def samples_def diagnostics_def)

text \<open>
  C3, as the specification words it, fails. Under a timer whose frequency query fails, an
  instance \<open>Foo\<close>/\<open>Bar\<close> that is started still emits its sample at destruction (with
  frequency 0); and with no error blob the number of diagnostics is zero, not one.
\<close>

theorem failed_frequency_counterexample:
  "qpf timer_freq_fails = QP_Fail 7 \<and>
   lifetime_trace timer_freq_fails (Some ''Foo'') (Some ''Bar'') 0x4000 [Start] world0 =
     [QueryPerformanceFrequency,
      BlobPrintf 0x4000 err_fmt ''FaceWorks_Profiler: Foo|Bar'' 7,
      QueryPerformanceCounter M_begin, QueryPerformanceCounter M_end,
      ProfilerPushTime ''FaceWorks_Profiler: Foo|Bar'' (Seconds 100 0)] \<and>
   samples (lifetime_trace timer_freq_fails (Some ''Foo'') (Some ''Bar'') 0x4000 [Start] world0) \<noteq> [] \<and>
   diagnostics (lifetime_trace timer_freq_fails (Some ''Foo'') (Some ''Bar'') 0 [Start] world0) = []"
  by (simp add: lifetime_trace_def lifetime_def ctor_named FaceWorks_Profiler_dtor_def
      start_def stop_def try_query_and_report_err_def Let_def set_which_def emit_def report_err_def
      timer_freq_fails_def world0_def c_str_info_buf code_label_foo_bar
      samples_def diagnostics_def)


text \<open>
  C6, as the code has it. \<open>start()\<close> changes nothing when the instance is already
  started or is a dummy; \<open>stop()\<close> changes nothing unless the instance has been started
  (and is not a dummy). The object keeps no record of having been stopped: \<open>stop()\<close>
  on a started instance leaves \<open>m_did_start\<close> set and queries the counter for \<open>m_end\<close>
  every time. Over a lifetime of a named instance the begin timestamp is captured once
  if \<open>start()\<close> is ever called (never otherwise), and the end timestamp once for every
  \<open>stop()\<close> that follows the first \<open>start()\<close> plus once in the destructor.
\<close>

theorem start_stop_guards:
  "(m_did_start p \<or> m_is_dummy p \<longrightarrow> start tm (p, w) = (p, w)) \<and>
   (\<not> m_did_start p \<or> m_is_dummy p \<longrightarrow> stop tm (p, w) = (p, w)) \<and>
   (m_did_start p \<and> \<not> m_is_dummy p \<longrightarrow>
      m_did_start (fst (stop tm (p, w))) \<and>
      captures M_end (trace (snd (stop tm (p, w)))) = Suc (captures M_end (trace w))) \<and>
   captures M_begin (lifetime_trace tm (Some name) (Some func) pBlob cs w) =
     captures M_begin (trace w) + (if Start \<in> set cs then 1 else 0) \<and>
   captures M_end (lifetime_trace tm (Some name) (Some func) pBlob cs w) =
     captures M_end (trace w) +
       (if Start \<in> set cs
        then Suc (length (filter (\<lambda>c. c = Stop) (dropWhile (\<lambda>c. c \<noteq> Start) cs)))
        else 0)"
proof (intro conjI impI)
  assume "m_did_start p \<or> m_is_dummy p"
  then show "start tm (p, w) = (p, w)"
    by (auto simp: start_def)
next
  assume "\<not> m_did_start p \<or> m_is_dummy p"
  then show "stop tm (p, w) = (p, w)"
    by (auto simp: stop_def)
next
  assume "m_did_start p \<and> \<not> m_is_dummy p"
  then show "m_did_start (fst (stop tm (p, w)))"
    by (simp add: stop_def try_query_keeps)
next
  assume "m_did_start p \<and> \<not> m_is_dummy p"
  then show "captures M_end (trace (snd (stop tm (p, w)))) = Suc (captures M_end (trace w))"
    by (simp add: stop_def try_query_captures)
next
  let ?pw = "projr (FaceWorks_Profiler_ctor tm (Some name) (Some func) pBlob w)"
  have begin0: "captures M_begin (trace (snd ?pw)) = captures M_begin (trace w)"
    and end0: "captures M_end (trace (snd ?pw)) = captures M_end (trace w)"
    by (simp_all add: ctor_named_trace captures_append) (simp_all add: captures_def split: qp_result.splits)
  show "captures M_begin (lifetime_trace tm (Some name) (Some func) pBlob cs w) =
          captures M_begin (trace w) + (if Start \<in> set cs then 1 else 0)"
    by (simp add: lifetime_trace_named dtor_captures run_calls_captures_begin ctor_named_fields begin0)
  have idle: "\<not> m_did_start (fst ?pw)" "\<not> m_is_dummy (fst ?pw)"
    by (simp_all add: ctor_named_fields)
  have "captures M_end (trace (snd (run_calls tm cs ?pw))) =
          captures M_end (trace (snd ?pw)) +
            length (filter (\<lambda>c. c = Stop) (dropWhile (\<lambda>c. c \<noteq> Start) cs))"
    using idle by (rule run_calls_captures_end_idle)
  moreover have "length (filter (\<lambda>c. c = Stop) (dropWhile (\<lambda>c. c \<noteq> Start) cs)) = 0"
    if "Start \<notin> set cs"
  proof -
    have "dropWhile (\<lambda>c. c \<noteq> Start) cs = []"
      using that by auto
    then show ?thesis
      by (simp only: filter.simps list.size)
  qed
  ultimately have run_end: "captures M_end (trace (snd (run_calls tm cs ?pw))) =
      captures M_end (trace w) +
        (if Start \<in> set cs
         then length (filter (\<lambda>c. c = Stop) (dropWhile (\<lambda>c. c \<noteq> Start) cs)) else 0)"
    using end0 by presburger
  show "captures M_end (lifetime_trace tm (Some name) (Some func) pBlob cs w) =
     captures M_end (trace w) +
       (if Start \<in> set cs
        then Suc (length (filter (\<lambda>c. c = Stop) (dropWhile (\<lambda>c. c \<noteq> Start) cs)))
        else 0)"
    unfolding lifetime_trace_named dtor_captures run_end
    by (simp add: run_calls_did_start run_calls_keeps idle)
qed

theorem start_stop_guards_witness:
  "start timer_ok (started_profiler, world_started) = (started_profiler, world_started) \<and>
   stop timer_ok (dummy_profiler, world0) = (dummy_profiler, world0) \<and>
   m_did_start (fst (stop timer_ok (started_profiler, world_started))) \<and>
   captures M_end (trace (snd (stop timer_ok (started_profiler, world_started)))) = 1 \<and>
   captures M_begin (lifetime_trace timer_ok (Some ''Foo'') (Some ''Bar'') 0 [Start, Stop, Stop] world0) = 1 \<and>
   captures M_end (lifetime_trace timer_ok (Some ''Foo'') (Some ''Bar'') 0 [Start, Stop, Stop] world0) = 3"
  using start_stop_guards
      [where p = started_profiler and w = world_started and tm = timer_ok
         and name = "''Foo''" and func = "''Bar''" and pBlob = 0 and cs = "[Start, Stop, Stop]"]
    start_stop_guards
      [where p = dummy_profiler and w = world0 and tm = timer_ok
         and name = "''Foo''" and func = "''Bar''" and pBlob = 0 and cs = "[Start, Stop, Stop]"]
  by (simp add: started_profiler_def dummy_profiler_def world_started_def world0_def captures_def)

text \<open>
  C6, as the specification words it, fails: after \<open>start()\<close>, two calls of \<open>stop()\<close> and the
  destructor capture the end timestamp three times.
\<close>

theorem stop_once_counterexample:
  "lifetime_trace timer_ok (Some ''Foo'') (Some ''Bar'') 0 [Start, Stop, Stop] world0 =
     [QueryPerformanceFrequency, QueryPerformanceCounter M_begin,
      QueryPerformanceCounter M_end, QueryPerformanceCounter M_end,
      QueryPerformanceCounter M_end,
      ProfilerPushTime ''FaceWorks_Profiler: Foo|Bar'' (Seconds 300 1000)] \<and>
   \<not> captures M_end
        (lifetime_trace timer_ok (Some ''Foo'') (Some ''Bar'') 0 [Start, Stop, Stop] world0) \<le> 1"
  by (simp add: lifetime_trace_def lifetime_def ctor_named FaceWorks_Profiler_dtor_def
      start_def stop_def try_query_and_report_err_def Let_def set_which_def emit_def report_err_def
      timer_ok_def world0_def c_str_info_buf code_label_foo_bar captures_def)

text \<open>
  C7. An instance constructed with an absent name or an absent calling context is a
  dummy, and nothing it does reaches the outside: any sequence of \<open>start()\<close> and
  \<open>stop()\<close> calls leaves the object and the world as they are, and so does the
  destructor. The world after the whole lifetime is the world before it: no counter or
  frequency query, no \<open>BlobPrintf\<close>, no \<open>ProfilerPushTime\<close>.
\<close>

theorem dummy_is_inert:
  assumes "name = None \<or> func = None"
  shows "(\<exists>p. FaceWorks_Profiler_ctor tm name func pBlob w = Inr (p, w) \<and>
              m_is_dummy p \<and>
              run_calls tm cs (p, w) = (p, w) \<and>
              FaceWorks_Profiler_dtor tm (p, w) = w) \<and>
         lifetime tm name func pBlob cs w = Inr w \<and>
         lifetime_trace tm name func pBlob cs w = trace w"
proof -
  let ?p = "\<lparr>m_begin = 0, m_end = 0, m_freq = 0, m_info_str = replicate 264 NUL,
             m_did_start = False, m_is_dummy = True, pErrorBlobOut = pBlob\<rparr>"
  have ctor: "FaceWorks_Profiler_ctor tm name func pBlob w = Inr (?p, w)"
    using assms by (rule ctor_dummy)
  have run: "run_calls tm cs (?p, w) = (?p, w)"
    by (rule run_calls_dummy) simp
  have dtor: "FaceWorks_Profiler_dtor tm (?p, w) = w"
    by (simp add: dtor_idle)
  show ?thesis
    by (simp add: lifetime_trace_def lifetime_def ctor run dtor)
qed

theorem dummy_is_inert_witness:
  "lifetime timer_ok None (Some ''Bar'') 0x4000 [Start, Stop, Start, Stop] world0 = Inr world0 \<and>
   lifetime timer_ok (Some ''Foo'') None 0x4000 [Start, Stop, Start, Stop] world0 = Inr world0 \<and>
   lifetime_trace timer_ok None None 0 [Start] world0 = []"
  using dummy_is_inert [where name = None and func = "Some ''Bar''" and tm = timer_ok
      and pBlob = "0x4000" and cs = "[Start, Stop, Start, Stop]" and w = world0]
    dummy_is_inert [where name = "Some ''Foo''" and func = None and tm = timer_ok
      and pBlob = "0x4000" and cs = "[Start, Stop, Start, Stop]" and w = world0]
    dummy_is_inert [where name = None and func = None and tm = timer_ok
      and pBlob = 0 and cs = "[Start]" and w = world0]
  by (simp add: world0_def)

end
